theory Spec2Isabelle
  imports Complex_Main "HOL-Library.Sublist"
begin

section \<open>Python values used by \<open>main.py\<close>\<close>

text \<open>
  A Python \<open>str\<close> is a sequence of Unicode code points, a \<open>bytes\<close> object a
  sequence of octets. Code points are natural numbers; octets are HOL characters, which
  are exactly the values 0..255. \<open>lit\<close> turns a literal of the source into its code
  points.
\<close>

type_synonym codepoint = nat
type_synonym pystr = "codepoint list"
type_synonym pybytes = "char list"

definition lit :: "string \<Rightarrow> pystr" where
  "lit s = map of_char s"

text \<open>
  \<open>str.isspace\<close> for one code point: CPython's \<open>_PyUnicode_IsWhitespace\<close>
  (bidirectional type WS, B or S, or category Zs).
\<close>

definition isspace :: "codepoint \<Rightarrow> bool" where
  "isspace c =
     ((9 \<le> c \<and> c \<le> 13) \<or> (28 \<le> c \<and> c \<le> 32) \<or> c = 0x85 \<or> c = 0xA0 \<or> c = 0x1680
      \<or> (0x2000 \<le> c \<and> c \<le> 0x200A) \<or> c = 0x2028 \<or> c = 0x2029 \<or> c = 0x202F
      \<or> c = 0x205F \<or> c = 0x3000)"

text \<open>\<open>s.strip()\<close> with no argument: leading, then trailing whitespace is dropped.\<close>

definition lstrip :: "pystr \<Rightarrow> pystr" where
  "lstrip s = dropWhile isspace s"

definition rstrip :: "pystr \<Rightarrow> pystr" where
  "rstrip s = rev (dropWhile isspace (rev s))"

definition strip :: "pystr \<Rightarrow> pystr" where
  "strip s = rstrip (lstrip s)"

text \<open>
  An exception is kept as its class and the text \<open>str(e)\<close> gives; the handlers of
  \<open>main.py\<close> read nothing else of it.
\<close>

datatype exc_class =
  OSError | RequestException | JSONDecodeError | AttributeError | TypeError | IndexError
  | KeyError

datatype exn = Exn exc_class pystr

fun str_exn :: "exn \<Rightarrow> pystr" where
  "str_exn (Exn _ m) = m"

text \<open>
  What \<open>response.json()\<close> returns: \<open>None\<close>, \<open>bool\<close>, \<open>int\<close>, \<open>float\<close>,
  \<open>str\<close>, \<open>list\<close> and \<open>dict\<close> (a dict in insertion order). The same type holds
  the \<open>json=\<close> argument of a request.
\<close>

datatype json =
  JNull | JBool bool | JInt int | JFloat real | JStr pystr | JList "json list"
  | JDict "(pystr \<times> json) list"

fun type_name :: "json \<Rightarrow> pystr" where
  "type_name JNull = lit ''NoneType''"
| "type_name (JBool _) = lit ''bool''"
| "type_name (JInt _) = lit ''int''"
| "type_name (JFloat _) = lit ''float''"
| "type_name (JStr _) = lit ''str''"
| "type_name (JList _) = lit ''list''"
| "type_name (JDict _) = lit ''dict''"

definition no_attribute :: "json \<Rightarrow> string \<Rightarrow> exn" where
  "no_attribute v a =
     Exn AttributeError
       ([39] @ type_name v @ [39] @ lit '' object has no attribute '' @ [39] @ lit a @ [39])"

definition not_subscriptable :: "json \<Rightarrow> exn" where
  "not_subscriptable v =
     Exn TypeError ([39] @ type_name v @ [39] @ lit '' object is not subscriptable'')"

text \<open>\<open>v.get(k)\<close>: a dict answers (\<open>None\<close> for a missing key), anything else has no \<open>get\<close>.\<close>

fun py_get :: "json \<Rightarrow> pystr \<Rightarrow> exn + json" where
  "py_get (JDict kvs) k = Inr (case map_of kvs k of None \<Rightarrow> JNull | Some v \<Rightarrow> v)"
| "py_get v k = Inl (no_attribute v ''get'')"

text \<open>
  \<open>v[0]\<close>: the first element of a list, the first character of a string, \<open>KeyError\<close>
  on a dict (the keys of a parsed JSON object are strings, never \<open>0\<close>), \<open>IndexError\<close>
  when empty, \<open>TypeError\<close> on the other types.
\<close>

fun py_index0 :: "json \<Rightarrow> exn + json" where
  "py_index0 (JList []) = Inl (Exn IndexError (lit ''list index out of range''))"
| "py_index0 (JList (v # _)) = Inr v"
| "py_index0 (JStr []) = Inl (Exn IndexError (lit ''string index out of range''))"
| "py_index0 (JStr (c # _)) = Inr (JStr [c])"
| "py_index0 (JDict _) = Inl (Exn KeyError (lit ''0''))"
| "py_index0 v = Inl (not_subscriptable v)"

fun py_strip :: "json \<Rightarrow> exn + pystr" where
  "py_strip (JStr s) = Inr (strip s)"
| "py_strip v = Inl (no_attribute v ''strip'')"

subsection \<open>\<open>base64.b64encode\<close>\<close>

definition b64_alphabet :: "char list" where
  "b64_alphabet = ''ABCDEFGHIJKLMNOPQRSTUVWXYZabcdefghijklmnopqrstuvwxyz0123456789+/''"

definition b64_char :: "nat \<Rightarrow> char" where
  "b64_char i = b64_alphabet ! (i mod 64)"

text \<open>
  Three octets make 24 bits, cut into four 6-bit indices; a last group of one or two
  octets is filled with zero bits and padded with \<open>=\<close>.
\<close>

fun b64encode :: "pybytes \<Rightarrow> pybytes" where
  "b64encode [] = []"
| "b64encode [a] =
     (let n = of_char a * 65536
      in [b64_char (n div 262144), b64_char (n div 4096), CHR ''='', CHR ''=''])"
| "b64encode [a, b] =
     (let n = of_char a * 65536 + of_char b * 256
      in [b64_char (n div 262144), b64_char (n div 4096), b64_char (n div 64), CHR ''=''])"
| "b64encode (a # b # c # rest) =
     (let n = of_char a * 65536 + of_char b * 256 + of_char c
      in [b64_char (n div 262144), b64_char (n div 4096), b64_char (n div 64), b64_char n]
         @ b64encode rest)"

text \<open>
  \<open>.decode("utf-8")\<close> on the output of \<open>b64encode\<close>: every octet is below 128
  (lemma \<open>b64encode_ascii\<close>), where UTF-8 maps an octet to the code point of the same
  value and cannot fail.
\<close>

definition decode_ascii :: "pybytes \<Rightarrow> pystr" where
  "decode_ascii bs = map of_char bs"

section \<open>The dispatcher: \<open>OCRWorker\<close>\<close>

datatype signal =
  Finished | Error pystr | Result pystr | Status pystr | Log pystr bool

record OCRWorker =
  image_path :: pystr
  model :: pystr
  url :: pystr
  is_running :: bool

definition OCRWorker_init :: "pystr \<Rightarrow> pystr \<Rightarrow> pystr \<Rightarrow> OCRWorker" where
  "OCRWorker_init p m u = \<lparr>image_path = p, model = m, url = u, is_running = True\<rparr>"

record http_request =
  req_url :: pystr
  req_json :: json
  req_headers :: "(pystr \<times> pystr) list"
  req_timeout :: nat

record response =
  status_code :: int
  resp_text :: pystr
  resp_json :: "exn + json"

text \<open>
  What the run meets outside the program: the file system, the HTTP service, and the
  clock. The two elapsed times are taken as the text their \<open>:.2f\<close> formatting gives.
\<close>

record world =
  read_file :: "pystr \<Rightarrow> exn + pybytes"
  http_post :: "http_request \<Rightarrow> exn + response"
  elapsed_encode :: pystr
  elapsed_done :: pystr

text \<open>What a run does that others can see: a signal emitted, a POST sent.\<close>

datatype effect = Emit signal | Post http_request

definition prompt :: pystr where
  "prompt =
     lit ''Extract ALL text from this image exactly as it appears.'' @ [10]
     @ lit ''            Preserve original formatting, line breaks, punctuation and special characters.'' @ [10]
     @ lit ''            Return ONLY the extracted text with NO additional commentary.''"

definition DEMO_KEY :: pystr where
  "DEMO_KEY = lit ''gsk_be...l''"

definition GROQ_API_URL :: pystr where
  "GROQ_API_URL = lit ''https://api.groq.com/openai/v1/chat/completions''"

definition headers :: "(pystr \<times> pystr) list" where
  "headers =
     [(lit ''Content-Type'', lit ''application/json''),
      (lit ''Authorization'', lit ''Bearer '' @ DEMO_KEY)]"

definition data :: "pystr \<Rightarrow> json" where
  "data encoded_image =
     JDict
      [(lit ''messages'',
        JList
         [JDict
           [(lit ''role'', JStr (lit ''user'')),
            (lit ''content'',
             JList
              [JDict [(lit ''type'', JStr (lit ''text'')), (lit ''text'', JStr prompt)],
               JDict
                [(lit ''type'', JStr (lit ''image_url'')),
                 (lit ''image_url'',
                  JDict [(lit ''url'', JStr (lit ''data:image/jpeg;base64,'' @ encoded_image))])]])]]),
       (lit ''model'', JStr (lit ''llama-3.2-11b-vision-preview'')),
       (lit ''stream'', JBool False)]"

text \<open>\<open>result.get("choices")[0].get("message").get("content").strip()\<close>, call by call.\<close>

definition extract_text :: "json \<Rightarrow> exn + pystr" where
  "extract_text result =
     (case py_get result (lit ''choices'') of
        Inl e \<Rightarrow> Inl e
      | Inr choices \<Rightarrow>
         (case py_index0 choices of
            Inl e \<Rightarrow> Inl e
          | Inr choice \<Rightarrow>
             (case py_get choice (lit ''message'') of
                Inl e \<Rightarrow> Inl e
              | Inr message \<Rightarrow>
                 (case py_get message (lit ''content'') of
                    Inl e \<Rightarrow> Inl e
                  | Inr content \<Rightarrow> py_strip content))))"

text \<open>
  The \<open>try\<close> block of \<open>run\<close>: the effects up to its end or up to the statement that
  raised, and the exception if one was raised. (The first \<open>data\<close> dict of the source is
  overwritten before any use and has no effect.)
\<close>

definition run_try :: "OCRWorker \<Rightarrow> world \<Rightarrow> effect list \<times> exn option" where
  "run_try self w =
     (let tr0 = [Emit (Status (lit ''Processing image...''))] in
      case read_file w (image_path self) of
        Inl e \<Rightarrow> (tr0, Some e)
      | Inr image_bytes \<Rightarrow>
         (let encoded_image = decode_ascii (b64encode image_bytes);
              tr1 = tr0 @ [Emit (Log (lit ''Image encoded in '' @ elapsed_encode w @ lit ''s'') False),
                           Emit (Log (lit ''Sending to '' @ model self) False)];
              request = \<lparr>req_url = GROQ_API_URL, req_json = data encoded_image,
                         req_headers = headers, req_timeout = 120\<rparr>;
              tr2 = tr1 @ [Post request]
          in case http_post w request of
               Inl e \<Rightarrow> (tr2, Some e)
             | Inr response \<Rightarrow>
                (if status_code response = 200 then
                   (case resp_json response of
                      Inl e \<Rightarrow> (tr2, Some e)
                    | Inr result \<Rightarrow>
                       (case extract_text result of
                          Inl e \<Rightarrow> (tr2, Some e)
                        | Inr text \<Rightarrow>
                           (tr2 @ [Emit (Result text),
                                   Emit (Status (lit ''Done in '' @ elapsed_done w @ lit ''s'')),
                                   Emit (Log (lit ''OCR completed in '' @ elapsed_done w @ lit ''s'') False),
                                   Emit (Log (resp_text response) True)],
                            None)))
                 else
                   (let error_msg = lit ''API error (Groq): '' @ resp_text response
                    in (tr2 @ [Emit (Error error_msg), Emit (Log error_msg True)], None)))))"

text \<open>\<open>run\<close>: the \<open>try\<close> block, the \<open>except Exception\<close> handler, the \<open>finally\<close> block.\<close>

definition run :: "OCRWorker \<Rightarrow> world \<Rightarrow> effect list" where
  "run self w =
     (case run_try self w of
        (tr, None) \<Rightarrow> tr @ [Emit Finished]
      | (tr, Some e) \<Rightarrow>
         (let error_msg = lit ''Processing error: '' @ str_exn e
          in tr @ [Emit (Error error_msg), Emit (Log error_msg True)] @ [Emit Finished]))"

definition stop :: "OCRWorker \<Rightarrow> OCRWorker" where
  "stop self = self\<lparr>is_running := False\<rparr>"

text \<open>Readings of a trace.\<close>

fun signals_of :: "effect list \<Rightarrow> signal list" where
  "signals_of [] = []"
| "signals_of (Emit s # es) = s # signals_of es"
| "signals_of (Post _ # es) = signals_of es"

fun posts_of :: "effect list \<Rightarrow> http_request list" where
  "posts_of [] = []"
| "posts_of (Post r # es) = r # posts_of es"
| "posts_of (Emit _ # es) = posts_of es"

fun results_of :: "signal list \<Rightarrow> pystr list" where
  "results_of [] = []"
| "results_of (Result t # ss) = t # results_of ss"
| "results_of (_ # ss) = results_of ss"

fun errors_of :: "signal list \<Rightarrow> pystr list" where
  "errors_of [] = []"
| "errors_of (Error m # ss) = m # errors_of ss"
| "errors_of (_ # ss) = errors_of ss"

fun is_outcome :: "signal \<Rightarrow> bool" where
  "is_outcome (Result _) = True"
| "is_outcome (Error _) = True"
| "is_outcome _ = False"

text \<open>
  The JSON path \<open>choices[0].message.content\<close> read as data: an object whose
  \<open>choices\<close> is an array, whose first element is an object, whose \<open>message\<close> is an
  object, whose \<open>content\<close> is a string.
\<close>

definition choices0_message_content :: "json \<Rightarrow> pystr option" where
  "choices0_message_content j =
     (case j of
        JDict kvs \<Rightarrow>
         (case map_of kvs (lit ''choices'') of
            Some (JList (JDict c0 # _)) \<Rightarrow>
             (case map_of c0 (lit ''message'') of
                Some (JDict m) \<Rightarrow>
                 (case map_of m (lit ''content'') of
                    Some (JStr c) \<Rightarrow> Some c
                  | _ \<Rightarrow> None)
              | _ \<Rightarrow> None)
          | _ \<Rightarrow> None)
      | _ \<Rightarrow> None)"

section \<open>The presentation shell: \<open>OCRApp\<close>\<close>

subsection \<open>Qt widgets\<close>

text \<open>
  A non-editable \<open>QComboBox\<close>: its items and the current index, \<open>-1\<close> when no item
  is current. The first item inserted into an empty box becomes current; \<open>findText\<close>
  matches exactly (\<open>Qt.MatchExactly | Qt.MatchCaseSensitive\<close>) and answers \<open>-1\<close> when
  no item matches; an index outside the items makes no item current.
\<close>

record QComboBox =
  items :: "pystr list"
  currentIndex :: int

definition clear :: "QComboBox \<Rightarrow> QComboBox" where
  "clear c = \<lparr>items = [], currentIndex = -1\<rparr>"

definition addItems :: "pystr list \<Rightarrow> QComboBox \<Rightarrow> QComboBox" where
  "addItems texts c =
     \<lparr>items = items c @ texts,
      currentIndex = (if items c = [] \<and> texts \<noteq> [] \<and> currentIndex c < 0 then 0 else currentIndex c)\<rparr>"

definition addItem :: "pystr \<Rightarrow> QComboBox \<Rightarrow> QComboBox" where
  "addItem t c = addItems [t] c"

fun find_index :: "pystr \<Rightarrow> pystr list \<Rightarrow> int" where
  "find_index t [] = -1"
| "find_index t (x # xs) =
     (if x = t then 0 else (let i = find_index t xs in if i < 0 then -1 else i + 1))"

definition findText :: "pystr \<Rightarrow> QComboBox \<Rightarrow> int" where
  "findText t c = find_index t (items c)"

definition setCurrentIndex :: "int \<Rightarrow> QComboBox \<Rightarrow> QComboBox" where
  "setCurrentIndex i c =
     c\<lparr>currentIndex := (if 0 \<le> i \<and> i < int (length (items c)) then i else -1)\<rparr>"

definition currentText :: "QComboBox \<Rightarrow> pystr" where
  "currentText c =
     (if 0 \<le> currentIndex c \<and> currentIndex c < int (length (items c))
      then items c ! nat (currentIndex c) else [])"

text \<open>
  A \<open>QPixmap\<close>: null, read from a file, made from the clipboard's image (a number
  stands for the bitmap), or scaled to a width and height.
\<close>

datatype pixmap =
  NullPixmap | FilePixmap pystr | ClipboardPixmap nat | ScaledPixmap pixmap int int

datatype icon = Warning | Critical

record dialog =
  dlg_icon :: icon
  dlg_title :: pystr
  dlg_text :: pystr

datatype thread = QThread

subsection \<open>The window's state\<close>

record OCRApp =
  app_image_path :: pystr
  ollama_url :: pystr
  preferred_model :: pystr
  available_models :: "json list"
  worker_thread :: "thread option"
  worker :: "OCRWorker option"
  image_label_pixmap :: "pixmap option"
  image_label_text :: pystr
  image_label_width :: int
  image_label_height :: int
  image_info :: pystr
  process_btn_enabled :: bool
  model_dropdown :: QComboBox
  result_text :: pystr
  status_bar :: pystr
  status_bar_style :: pystr
  dialogs :: "dialog list"
  console :: "(pystr \<times> bool) list"

text \<open>
  \<open>__init__\<close> and \<open>init_ui\<close>. The size the layout gives the image label is a
  parameter. \<open>dialogs\<close> are the message boxes shown so far, \<open>console\<close> the lines
  printed so far (without their time stamp) with their error flag.
\<close>

definition OCRApp_init :: "int \<Rightarrow> int \<Rightarrow> OCRApp" where
  "OCRApp_init width height =
     \<lparr>app_image_path = [],
      ollama_url = lit ''http://localhost:11434'',
      preferred_model = lit ''gemma:2b'',
      available_models = [],
      worker_thread = None,
      worker = None,
      image_label_pixmap = None,
      image_label_text =
        lit ''Click to select an image'' @ [10] @ lit ''or drag & drop here'' @ [10]
        @ lit ''or paste from clipboard'',
      image_label_width = width,
      image_label_height = height,
      image_info = lit ''No image loaded'',
      process_btn_enabled = True,
      model_dropdown = addItem (lit ''Loading models...'') \<lparr>items = [], currentIndex = -1\<rparr>,
      result_text = [],
      status_bar = lit ''Ready'',
      status_bar_style =
        [10] @ lit ''            border-top: 1px solid #ddd;'' @ [10]
        @ lit ''            padding: 5px;'' @ [10]
        @ lit ''            color: #666;'' @ [10] @ lit ''        '',
      dialogs = [],
      console = []\<rparr>"

definition update_status :: "pystr \<Rightarrow> bool \<Rightarrow> OCRApp \<Rightarrow> OCRApp" where
  "update_status message err self =
     self\<lparr>status_bar := message,
          status_bar_style := (if err then lit ''color: #d32f2f;'' else lit ''color: #666;'')\<rparr>"

definition log :: "pystr \<Rightarrow> bool \<Rightarrow> OCRApp \<Rightarrow> OCRApp" where
  "log message err self = self\<lparr>console := console self @ [(message, err)]\<rparr>"

definition warning :: "string \<Rightarrow> OCRApp \<Rightarrow> OCRApp" where
  "warning msg self =
     self\<lparr>dialogs := dialogs self
        @ [\<lparr>dlg_icon = Warning, dlg_title = lit ''Warning'', dlg_text = lit msg\<rparr>]\<rparr>"

subsection \<open>Supplying an image\<close>

definition load_pixmap :: "pixmap \<Rightarrow> OCRApp \<Rightarrow> OCRApp" where
  "load_pixmap px self =
     (if px \<noteq> NullPixmap then
        self\<lparr>image_label_pixmap :=
               Some (ScaledPixmap px (image_label_width self - 20) (image_label_height self - 20)),
             image_label_text := []\<rparr>
      else self)"

text \<open>\<open>file_path.split('/')[-1]\<close>: what follows the last \<open>/\<close>.\<close>

definition last_segment :: "pystr \<Rightarrow> pystr" where
  "last_segment p = rev (takeWhile (\<lambda>c. c \<noteq> 47) (rev p))"

text \<open>
  \<open>QPixmap(file_path)\<close> is null when the file cannot be read as an image;
  \<open>readable\<close> says which files can.
\<close>

definition QPixmap :: "(pystr \<Rightarrow> bool) \<Rightarrow> pystr \<Rightarrow> pixmap" where
  "QPixmap readable file_path = (if readable file_path then FilePixmap file_path else NullPixmap)"

definition load_image :: "(pystr \<Rightarrow> bool) \<Rightarrow> pystr \<Rightarrow> OCRApp \<Rightarrow> OCRApp" where
  "load_image readable file_path self =
     (let s1 = self\<lparr>app_image_path := file_path, image_info := last_segment file_path\<rparr>;
          s2 = load_pixmap (QPixmap readable file_path) s1;
          s3 = log (lit ''Loaded image: '' @ file_path) False s2
      in update_status (lit ''Loaded: '' @ last_segment file_path) False s3)"

text \<open>
  \<open>file_path.lower().endswith(('.png', '.jpg', '.jpeg', '.bmp', '.gif'))\<close>. Lower
  case is taken on A..Z: no code point outside ASCII has a lower case that occurs in
  one of the five suffixes.
\<close>

definition lower :: "pystr \<Rightarrow> pystr" where
  "lower s = map (\<lambda>c. if 65 \<le> c \<and> c \<le> 90 then c + 32 else c) s"

definition endswith :: "pystr \<Rightarrow> pystr \<Rightarrow> bool" where
  "endswith s suf = suffix suf s"

definition image_suffixes :: "pystr list" where
  "image_suffixes = [lit ''.png'', lit ''.jpg'', lit ''.jpeg'', lit ''.bmp'', lit ''.gif'']"

definition is_image_name :: "pystr \<Rightarrow> bool" where
  "is_image_name file_path = list_ex (endswith (lower file_path)) image_suffixes"

text \<open>
  The loop of \<open>dropEvent\<close> and of the paste handler: the first URL whose local file
  has an image suffix is loaded, and the loop ends.
\<close>

fun load_first_image :: "(pystr \<Rightarrow> bool) \<Rightarrow> pystr list \<Rightarrow> OCRApp \<Rightarrow> OCRApp" where
  "load_first_image readable [] self = self"
| "load_first_image readable (file_path # urls) self =
     (if is_image_name file_path then load_image readable file_path self
      else load_first_image readable urls self)"

text \<open>\<open>select_image\<close>: the dialog answers a path, \<open>""\<close> when cancelled.\<close>

definition select_image :: "(pystr \<Rightarrow> bool) \<Rightarrow> pystr \<Rightarrow> OCRApp \<Rightarrow> OCRApp" where
  "select_image readable file_path self =
     (if file_path \<noteq> [] then load_image readable file_path self else self)"

definition dropEvent :: "(pystr \<Rightarrow> bool) \<Rightarrow> pystr list \<Rightarrow> OCRApp \<Rightarrow> OCRApp" where
  "dropEvent readable urls self = load_first_image readable urls self"

text \<open>
  The clipboard as \<open>keyPressEvent\<close> reads it: \<open>clip_image\<close> is
  \<open>QPixmap.fromImage(clipboard.image())\<close>, \<open>clip_urls\<close> the local files of the URLs.
\<close>

record clipboard =
  hasImage :: bool
  clip_image :: pixmap
  hasUrls :: bool
  clip_urls :: "pystr list"

text \<open>\<open>keyPressEvent\<close>; \<open>ctrl_v\<close> says that the key is V with exactly Ctrl held.\<close>

definition keyPressEvent :: "(pystr \<Rightarrow> bool) \<Rightarrow> bool \<Rightarrow> clipboard \<Rightarrow> OCRApp \<Rightarrow> OCRApp" where
  "keyPressEvent readable ctrl_v mime_data self =
     (if ctrl_v then
        (if hasImage mime_data then load_pixmap (clip_image mime_data) self
         else if hasUrls mime_data then load_first_image readable (clip_urls mime_data) self
         else self)
      else self)"

subsection \<open>The model catalog\<close>

text \<open>Iterating a value: a list's elements, a dict's keys, a string's characters.\<close>

definition not_iterable :: "json \<Rightarrow> exn" where
  "not_iterable v = Exn TypeError ([39] @ type_name v @ [39] @ lit '' object is not iterable'')"

fun py_iter :: "json \<Rightarrow> exn + json list" where
  "py_iter (JList xs) = Inr xs"
| "py_iter (JDict kvs) = Inr (map (\<lambda>kv. JStr (fst kv)) kvs)"
| "py_iter (JStr s) = Inr (map (\<lambda>c. JStr [c]) s)"
| "py_iter v = Inl (not_iterable v)"

text \<open>\<open>model["name"]\<close>.\<close>

fun py_getitem_name :: "json \<Rightarrow> exn + json" where
  "py_getitem_name (JDict kvs) =
     (case map_of kvs (lit ''name'') of
        Some v \<Rightarrow> Inr v
      | None \<Rightarrow> Inl (Exn KeyError ([39] @ lit ''name'' @ [39])))"
| "py_getitem_name (JList _) =
     Inl (Exn TypeError (lit ''list indices must be integers or slices, not str''))"
| "py_getitem_name (JStr _) =
     Inl (Exn TypeError (lit ''string indices must be integers, not '' @ [39] @ lit ''str'' @ [39]))"
| "py_getitem_name v = Inl (not_subscriptable v)"

text \<open>\<open>[model["name"] for model in models]\<close>, given the elements: the first failure ends it.\<close>

fun names_of :: "json list \<Rightarrow> exn + json list" where
  "names_of [] = Inr []"
| "names_of (m # ms) =
     (case py_getitem_name m of
        Inl e \<Rightarrow> Inl e
      | Inr n \<Rightarrow> (case names_of ms of Inl e \<Rightarrow> Inl e | Inr ns \<Rightarrow> Inr (n # ns)))"

text \<open>Decimal digits of a number, as \<open>str(len(...))\<close> writes them.\<close>

fun digits :: "nat \<Rightarrow> nat \<Rightarrow> pystr" where
  "digits 0 n = []"
| "digits (Suc fuel) n = (if n < 10 then [48 + n] else digits fuel (n div 10) @ [48 + n mod 10])"

definition str_of_nat :: "nat \<Rightarrow> pystr" where
  "str_of_nat n = digits (Suc n) n"

text \<open>
  \<open>sep.join(xs)\<close>: every item must be a \<open>str\<close>; the first that is not raises
  \<open>TypeError\<close> naming its position and type. \<open>join_from i\<close> joins the items from
  position \<open>i\<close> on, each preceded by the separator.
\<close>

fun join_from :: "nat \<Rightarrow> pystr \<Rightarrow> json list \<Rightarrow> exn + pystr" where
  "join_from i sep [] = Inr []"
| "join_from i sep (JStr s # xs) =
     (case join_from (Suc i) sep xs of Inl e \<Rightarrow> Inl e | Inr r \<Rightarrow> Inr (sep @ s @ r))"
| "join_from i sep (v # xs) =
     Inl (Exn TypeError
       (lit ''sequence item '' @ str_of_nat i @ lit '': expected str instance, ''
        @ type_name v @ lit '' found''))"

definition join :: "pystr \<Rightarrow> json list \<Rightarrow> exn + pystr" where
  "join sep xs =
     (case join_from 0 sep xs of Inl e \<Rightarrow> Inl e | Inr r \<Rightarrow> Inr (drop (length sep) r))"

fun strs_of :: "json list \<Rightarrow> pystr list" where
  "strs_of [] = []"
| "strs_of (JStr s # xs) = s # strs_of xs"
| "strs_of (_ # xs) = strs_of xs"

text \<open>\<open>response.json().get("models", [])\<close>.\<close>

fun get_models :: "json \<Rightarrow> exn + json" where
  "get_models (JDict kvs) =
     Inr (case map_of kvs (lit ''models'') of None \<Rightarrow> JList [] | Some v \<Rightarrow> v)"
| "get_models v = Inl (no_attribute v ''get'')"

text \<open>
  The branch of \<open>check_ollama_connection\<close> for status 200, after \<open>self.available_models\<close>
  is assigned: the log line (where \<open>join\<close> may raise), then the dropdown.
\<close>

definition fill_dropdown :: "OCRApp \<Rightarrow> OCRApp" where
  "fill_dropdown self =
     (let names = strs_of (available_models self);
          d0 = clear (model_dropdown self);
          d1 = (if names \<noteq> [] then
                  (let d = addItems names d0 in
                   if list_ex (sublist (preferred_model self)) names then
                     (let index = findText (preferred_model self) d in setCurrentIndex index d)
                   else d)
                else d0)
      in update_status
           (lit ''Connected | '' @ str_of_nat (length (available_models self)) @ lit '' models'')
           False (self\<lparr>model_dropdown := d1\<rparr>))"

text \<open>
  The \<open>try\<close> block of \<open>check_ollama_connection\<close>: the state where it ended or raised,
  and the exception if one was raised. \<open>http_get\<close> is \<open>requests.get\<close> with its
  five-second timeout.
\<close>

definition check_try :: "(pystr \<Rightarrow> exn + response) \<Rightarrow> OCRApp \<Rightarrow> OCRApp \<times> exn option" where
  "check_try http_get self =
     (case http_get (ollama_url self @ lit ''/api/tags'') of
        Inl e \<Rightarrow> (self, Some e)
      | Inr response \<Rightarrow>
         (if status_code response = 200 then
            (case resp_json response of
               Inl e \<Rightarrow> (self, Some e)
             | Inr body \<Rightarrow>
                (case get_models body of
                   Inl e \<Rightarrow> (self, Some e)
                 | Inr models \<Rightarrow>
                    (case py_iter models of
                       Inl e \<Rightarrow> (self, Some e)
                     | Inr ms \<Rightarrow>
                        (case names_of ms of
                           Inl e \<Rightarrow> (self, Some e)
                         | Inr names \<Rightarrow>
                            (let s1 = self\<lparr>available_models := names\<rparr> in
                             case join (lit '', '') names of
                               Inl e \<Rightarrow> (s1, Some e)
                             | Inr joined \<Rightarrow>
                                (fill_dropdown (log (lit ''Available models: '' @ joined) False s1),
                                 None))))))
          else
            (log (lit ''Connection failed: '' @ resp_text response) True
               (update_status (lit ''Connection failed'') True self),
             None)))"

definition check_ollama_connection :: "(pystr \<Rightarrow> exn + response) \<Rightarrow> OCRApp \<Rightarrow> OCRApp" where
  "check_ollama_connection http_get self =
     (let s0 = log (lit ''Attempting to connect to Ollama...'') False
                 (update_status (lit ''Connecting to Ollama...'') False self)
      in case check_try http_get s0 of
           (s1, None) \<Rightarrow> s1
         | (s1, Some e) \<Rightarrow>
            log (lit ''Connection error: '' @ str_exn e) True
              (update_status (lit ''Error: '' @ str_exn e) True s1))"

subsection \<open>Submitting a job and hearing from it\<close>

text \<open>
  The whole program: the window, the worker threads started and not yet finished (each
  with what its \<open>run\<close> has still to do, in order), and the POSTs sent so far.
\<close>

record system =
  app :: OCRApp
  threads :: "effect list list"
  network :: "http_request list"

definition initial :: "int \<Rightarrow> int \<Rightarrow> system" where
  "initial width height = \<lparr>app = OCRApp_init width height, threads = [], network = []\<rparr>"

text \<open>
  \<open>run_ocr\<close>, the second definition of the class (it replaces the first, which no
  call can reach). \<open>w\<close> is the world the started run will meet.
\<close>

definition run_ocr :: "world \<Rightarrow> system \<Rightarrow> system" where
  "run_ocr w s =
     (let self = app s in
      if app_image_path self = [] then
        s\<lparr>app := warning ''Please select an image first'' self\<rparr>
      else if currentText (model_dropdown self) = [] then
        s\<lparr>app := warning ''Please select a model first'' self\<rparr>
      else
        (let s1 = self\<lparr>process_btn_enabled := False, result_text := []\<rparr>;
             job = OCRWorker_init (app_image_path s1) (currentText (model_dropdown s1)) (ollama_url s1);
             s2 = s1\<lparr>worker_thread := Some QThread, worker := Some job\<rparr>
         in s\<lparr>app := s2, threads := threads s @ [run job w]\<rparr>))"

definition handle_result :: "pystr \<Rightarrow> OCRApp \<Rightarrow> OCRApp" where
  "handle_result t self = self\<lparr>result_text := t\<rparr>"

definition handle_error :: "pystr \<Rightarrow> OCRApp \<Rightarrow> OCRApp" where
  "handle_error error_msg self =
     update_status (lit ''Error occurred'') True
       (self\<lparr>dialogs := dialogs self
          @ [\<lparr>dlg_icon = Critical, dlg_title = lit ''Error'', dlg_text = error_msg\<rparr>]\<rparr>)"

definition log_message :: "pystr \<Rightarrow> bool \<Rightarrow> OCRApp \<Rightarrow> OCRApp" where
  "log_message message is_error self = self\<lparr>console := console self @ [(message, is_error)]\<rparr>"

definition cleanup_thread :: "OCRApp \<Rightarrow> OCRApp" where
  "cleanup_thread self =
     (let s1 = (if worker_thread self \<noteq> None then self\<lparr>worker_thread := None\<rparr> else self)
      in s1\<lparr>process_btn_enabled := True\<rparr>)"

text \<open>The connections made in \<open>run_ocr\<close>: each signal of the worker and its slot.\<close>

fun deliver :: "signal \<Rightarrow> OCRApp \<Rightarrow> OCRApp" where
  "deliver (Result t) self = handle_result t self"
| "deliver (Error m) self = handle_error m self"
| "deliver (Status m) self = update_status m False self"
| "deliver (Log m e) self = log_message m e self"
| "deliver Finished self = cleanup_thread self"

text \<open>
  What can happen next. A click on the button reaches \<open>run_ocr\<close> only while the
  button is enabled (a disabled \<open>QPushButton\<close> emits no \<open>clicked\<close>). \<open>Advance i\<close>
  is the next effect of thread \<open>i\<close>: its POST is sent, or its signal reaches the slot
  in the window's thread. A thread with nothing left to do is gone.
\<close>

datatype event =
    Click world
  | Advance nat
  | Choose "pystr \<Rightarrow> bool" pystr
  | Drop "pystr \<Rightarrow> bool" "pystr list"
  | Key "pystr \<Rightarrow> bool" bool clipboard
  | Connect "pystr \<Rightarrow> exn + response"

definition advance :: "nat \<Rightarrow> system \<Rightarrow> system" where
  "advance i s =
     (if i < length (threads s) then
        (case threads s ! i of
           [] \<Rightarrow> s\<lparr>threads := take i (threads s) @ drop (Suc i) (threads s)\<rparr>
         | e # rest \<Rightarrow>
            (let s1 = s\<lparr>threads := (if rest = [] then take i (threads s) @ drop (Suc i) (threads s)
                                      else (threads s)[i := rest])\<rparr>
             in case e of
                  Post r \<Rightarrow> s1\<lparr>network := network s1 @ [r]\<rparr>
                | Emit sg \<Rightarrow> s1\<lparr>app := deliver sg (app s1)\<rparr>))
      else s)"

fun step :: "event \<Rightarrow> system \<Rightarrow> system" where
  "step (Click w) s = (if process_btn_enabled (app s) then run_ocr w s else s)"
| "step (Advance i) s = advance i s"
| "step (Choose readable file_path) s = s\<lparr>app := select_image readable file_path (app s)\<rparr>"
| "step (Drop readable urls) s = s\<lparr>app := dropEvent readable urls (app s)\<rparr>"
| "step (Key readable ctrl_v mime_data) s = s\<lparr>app := keyPressEvent readable ctrl_v mime_data (app s)\<rparr>"
| "step (Connect http_get) s = s\<lparr>app := check_ollama_connection http_get (app s)\<rparr>"

fun exec :: "event list \<Rightarrow> system \<Rightarrow> system" where
  "exec [] s = s"
| "exec (e # es) s = exec es (step e s)"

subsection \<open>One job at a time\<close>

text \<open>
  What a started thread has still to do ends with the emission of \<open>finished\<close> and
  holds no other. The window and its threads agree when the button is enabled and no
  thread is left, or the button is disabled and exactly one thread is left.
\<close>

definition well_ended :: "effect list \<Rightarrow> bool" where
  "well_ended tr = (tr \<noteq> [] \<and> last tr = Emit Finished \<and> Emit Finished \<notin> set (butlast tr))"

definition single_flight :: "system \<Rightarrow> bool" where
  "single_flight s =
     (if process_btn_enabled (app s) then threads s = []
      else (case threads s of [tr] \<Rightarrow> well_ended tr | _ \<Rightarrow> False))"

section \<open>Example inputs\<close>

text \<open>
  A worker, and a world in which the image file holds the three octets \<open>foo\<close> and the
  service answers every POST with the given response.
\<close>

definition example_worker :: OCRWorker where
  "example_worker =
     OCRWorker_init (lit ''/tmp/a.png'') (lit ''gemma:2b'') (lit ''http://localhost:11434'')"

definition example_world :: "response \<Rightarrow> world" where
  "example_world r =
     \<lparr>read_file = (\<lambda>p. Inr ''foo''), http_post = (\<lambda>q. Inr r),
      elapsed_encode = lit ''0.00'', elapsed_done = lit ''1.25''\<rparr>"

definition example_request :: http_request where
  "example_request =
     \<lparr>req_url = GROQ_API_URL, req_json = data (lit ''Zm9v''), req_headers = headers,
      req_timeout = 120\<rparr>"

definition hello_response :: response where
  "hello_response =
     \<lparr>status_code = 200,
      resp_text = lit ''{choices: ...}'',
      resp_json =
        Inr (JDict
          [(lit ''choices'',
            JList [JDict [(lit ''message'', JDict [(lit ''content'', JStr (lit ''  Hello World  ''))])]])])\<rparr>"

definition rate_limited_response :: response where
  "rate_limited_response =
     \<lparr>status_code = 429, resp_text = lit ''rate limited'',
      resp_json = Inl (Exn JSONDecodeError (lit ''Expecting value: line 1 column 1 (char 0)''))\<rparr>"

definition unreadable_world :: world where
  "unreadable_world =
     \<lparr>read_file = (\<lambda>p. Inl (Exn OSError (lit ''[Errno 2] No such file or directory''))),
      http_post = (\<lambda>q. Inr hello_response),
      elapsed_encode = lit ''0.00'', elapsed_done = lit ''1.25''\<rparr>"

text \<open>
  The answer of the model-listing endpoint for a list of names, two clipboards, a
  session in which an image is chosen and the button clicked, and the state after an
  image was chosen and the endpoint listed no model.
\<close>

definition tags_response :: "pystr list \<Rightarrow> response" where
  "tags_response names =
     \<lparr>status_code = 200, resp_text = lit ''{models: ...}'',
      resp_json = Inr (JDict [(lit ''models'', JList (map (\<lambda>n. JDict [(lit ''name'', JStr n)]) names))])\<rparr>"

definition bitmap_clipboard :: clipboard where
  "bitmap_clipboard = \<lparr>hasImage = True, clip_image = ClipboardPixmap 0, hasUrls = False, clip_urls = []\<rparr>"

definition url_clipboard :: "pystr list \<Rightarrow> clipboard" where
  "url_clipboard urls = \<lparr>hasImage = False, clip_image = NullPixmap, hasUrls = True, clip_urls = urls\<rparr>"

definition example_events :: "event list" where
  "example_events =
     [Choose (\<lambda>p. True) (lit ''/tmp/a.png''), Click (example_world hello_response)]"

text \<open>
  The state in which the model-listing endpoint could not be reached and an image was
  then chosen: the dropdown still holds its placeholder item alone.
\<close>

definition placeholder_state :: system where
  "placeholder_state =
     exec [Connect (\<lambda>u. Inl (Exn RequestException (lit ''Connection refused''))),
           Choose (\<lambda>p. True) (lit ''/tmp/a.png'')]
       (initial 400 300)"

definition no_models_state :: system where
  "no_models_state =
     exec [Choose (\<lambda>p. True) (lit ''/tmp/a.png''), Connect (\<lambda>u. Inr (tags_response []))]
       (initial 400 300)"

section \<open>Properties of the library functions\<close>

lemma lit_Nil: "lit [] = []"
  by (simp add: lit_def)

lemma b64encode_rfc4648:
  "b64encode ''f'' = ''Zg==''"
  "b64encode ''fo'' = ''Zm8=''"
  "b64encode ''foo'' = ''Zm9v''"
  "b64encode ''foob'' = ''Zm9vYg==''"
  "b64encode ''fooba'' = ''Zm9vYmE=''"
  "b64encode ''foobar'' = ''Zm9vYmFy''"
  by (simp_all add: b64_char_def b64_alphabet_def Let_def)

lemma lstrip_decomp: "\<exists>pre. s = pre @ lstrip s \<and> list_all isspace pre"
proof -
  have "s = takeWhile isspace s @ lstrip s" by (simp add: lstrip_def)
  moreover have "list_all isspace (takeWhile isspace s)"
    by (simp add: list_all_iff) (meson set_takeWhileD)
  ultimately show ?thesis by blast
qed

lemma rstrip_decomp: "\<exists>suf. s = rstrip s @ suf \<and> list_all isspace suf"
proof -
  have "rev s = takeWhile isspace (rev s) @ dropWhile isspace (rev s)" by simp
  then have "s = rev (dropWhile isspace (rev s)) @ rev (takeWhile isspace (rev s))"
    by (metis rev_append rev_rev_ident)
  moreover have "list_all isspace (rev (takeWhile isspace (rev s)))"
    by (simp add: list_all_iff) (meson set_takeWhileD)
  ultimately show ?thesis unfolding rstrip_def by blast
qed

text \<open>\<open>strip\<close> removes whitespace only, and only at the two ends.\<close>

lemma strip_decomp:
  "\<exists>pre suf. s = pre @ strip s @ suf \<and> list_all isspace pre \<and> list_all isspace suf"
proof -
  obtain pre where p: "s = pre @ lstrip s" "list_all isspace pre"
    using lstrip_decomp by blast
  obtain suf where q: "lstrip s = rstrip (lstrip s) @ suf" "list_all isspace suf"
    using rstrip_decomp by blast
  have "s = pre @ strip s @ suf" using p(1) q(1) by (simp add: strip_def)
  then show ?thesis using p(2) q(2) by blast
qed

lemma lstrip_hd: "lstrip s \<noteq> [] \<Longrightarrow> \<not> isspace (hd (lstrip s))"
  unfolding lstrip_def by (rule hd_dropWhile)

lemma rstrip_last: "rstrip s \<noteq> [] \<Longrightarrow> \<not> isspace (last (rstrip s))"
  unfolding rstrip_def by (simp add: last_rev hd_dropWhile)

lemma rstrip_hd: "rstrip s \<noteq> [] \<Longrightarrow> hd (rstrip s) = hd s"
proof -
  assume ne: "rstrip s \<noteq> []"
  obtain suf where "s = rstrip s @ suf" using rstrip_decomp by blast
  then show ?thesis using ne by (metis hd_append2)
qed

text \<open>What \<open>strip\<close> leaves neither starts nor ends with whitespace.\<close>

lemma strip_ends:
  assumes "strip s \<noteq> []"
  shows "\<not> isspace (hd (strip s)) \<and> \<not> isspace (last (strip s))"
proof -
  have ne: "rstrip (lstrip s) \<noteq> []" using assms by (simp add: strip_def)
  then have "lstrip s \<noteq> []" by (auto simp: rstrip_def)
  then have "\<not> isspace (hd (lstrip s))" by (rule lstrip_hd)
  then have "\<not> isspace (hd (strip s))" using rstrip_hd[OF ne] by (simp add: strip_def)
  moreover have "\<not> isspace (last (strip s))" using rstrip_last[OF ne] by (simp add: strip_def)
  ultimately show ?thesis by simp
qed

lemma b64_char_ascii: "of_char (b64_char i) < (128::nat)"
proof -
  have "list_all (\<lambda>c. of_char c < (128::nat)) b64_alphabet"
    by (simp add: b64_alphabet_def)
  moreover have "i mod 64 < length b64_alphabet" by (simp add: b64_alphabet_def)
  ultimately show ?thesis unfolding b64_char_def by (simp add: list_all_length)
qed

lemma b64encode_ascii: "list_all (\<lambda>c. of_char c < (128::nat)) (b64encode bs)"
  by (induction bs rule: b64encode.induct) (simp_all add: Let_def b64_char_ascii)

lemma b64encode_length: "length (b64encode bs) = 4 * ((length bs + 2) div 3)"
proof (induction bs rule: b64encode.induct)
  case (4 a b c rest)
  have "(length rest + 5) div 3 = Suc ((length rest + 2) div 3)" by presburger
  with 4 show ?case by (simp add: Let_def add.commute)
qed (simp_all add: Let_def)

section \<open>Properties of the dispatcher\<close>

text \<open>
  The Python calls of \<open>extract_text\<close> succeed exactly on a body that has a string at
  \<open>choices[0].message.content\<close>.
\<close>

lemma extract_text_Some:
  "choices0_message_content j = Some c \<Longrightarrow> extract_text j = Inr (strip c)"
  unfolding extract_text_def choices0_message_content_def
  by (cases j) (auto split: option.splits json.splits list.splits)

lemma extract_text_None:
  "choices0_message_content j = None \<Longrightarrow> \<exists>e. extract_text j = Inl e"
  unfolding extract_text_def choices0_message_content_def
  by (cases j) (auto split: option.splits json.splits list.splits sum.splits
       elim!: py_index0.elims py_get.elims py_strip.elims)

text \<open>A POST is sent only after the image was read, and it is the request built from it.\<close>

lemma Post_in_run:
  "Post req \<in> set (run self w) \<Longrightarrow>
     \<exists>bytes. read_file w (image_path self) = Inr bytes
       \<and> req = \<lparr>req_url = GROQ_API_URL, req_json = data (decode_ascii (b64encode bytes)),
                 req_headers = headers, req_timeout = 120\<rparr>"
  by (auto simp: run_def run_try_def Let_def split: sum.splits if_splits)

lemma example_run_posts: "Post example_request \<in> set (run example_worker (example_world r))"
  by (simp add: run_def run_try_def Let_def example_worker_def example_world_def
      example_request_def OCRWorker_init_def decode_ascii_def lit_def b64_char_def b64_alphabet_def
      split: sum.split)

text \<open>
  Claim C1. Every run of \<open>OCRWorker.run\<close> emits exactly one signal that is a result
  or an error, and emits \<open>finished\<close> exactly once, as its last signal, whatever the
  file system and the service do (success, a response other than 200, an exception).
\<close>

theorem run_one_outcome_then_finished:
  "length (results_of (signals_of (run self w))) + length (errors_of (signals_of (run self w))) = 1
   \<and> count_list (signals_of (run self w)) Finished = 1
   \<and> last (signals_of (run self w)) = Finished"
  by (simp add: run_def run_try_def Let_def split: sum.split)

text \<open>
  Claim C2. When the POST of a run is answered with status 200, the results the run
  emits are: the string at \<open>choices[0].message.content\<close> of the parsed body with its
  surrounding whitespace stripped, once, when the body parses and has a string there;
  none otherwise.
\<close>

theorem run_200_result_is_trimmed_content:
  assumes "Post req \<in> set (run self w)" and "http_post w req = Inr r"
    and "status_code r = 200"
  shows "results_of (signals_of (run self w)) =
           (case resp_json r of
              Inl e \<Rightarrow> []
            | Inr j \<Rightarrow> (case choices0_message_content j of None \<Rightarrow> [] | Some c \<Rightarrow> [strip c]))"
proof -
  obtain bytes where b: "read_file w (image_path self) = Inr bytes"
    and q: "req = \<lparr>req_url = GROQ_API_URL, req_json = data (decode_ascii (b64encode bytes)),
                 req_headers = headers, req_timeout = 120\<rparr>"
    using Post_in_run[OF assms(1)] by blast
  show ?thesis
  proof (cases "resp_json r")
    case (Inl e)
    then show ?thesis using b q assms(2,3)
      by (simp add: run_def run_try_def Let_def)
  next
    case (Inr j)
    show ?thesis
    proof (cases "choices0_message_content j")
      case None
      then obtain e where "extract_text j = Inl e" using extract_text_None by blast
      then show ?thesis using None Inr b q assms(2,3)
        by (simp add: run_def run_try_def Let_def)
    next
      case (Some c)
      then have "extract_text j = Inr (strip c)" by (rule extract_text_Some)
      then show ?thesis using Some Inr b q assms(2,3)
        by (simp add: run_def run_try_def Let_def)
    qed
  qed
qed

text \<open>
  The instance of the specification: a 200 response whose content is
  \<open>"  Hello World  "\<close> gives the result \<open>"Hello World"\<close>.
\<close>

theorem run_200_hello_world:
  "Post example_request \<in> set (run example_worker (example_world hello_response))
   \<and> http_post (example_world hello_response) example_request = Inr hello_response
   \<and> status_code hello_response = 200
   \<and> results_of (signals_of (run example_worker (example_world hello_response)))
       = [lit ''Hello World'']"
proof -
  have a: "Post example_request \<in> set (run example_worker (example_world hello_response))"
    by (rule example_run_posts)
  have b: "http_post (example_world hello_response) example_request = Inr hello_response"
    by (simp add: example_world_def)
  have c: "status_code hello_response = 200"
    by (simp add: hello_response_def)
  have d: "resp_json hello_response =
      Inr (JDict
          [(lit ''choices'',
            JList [JDict [(lit ''message'', JDict [(lit ''content'', JStr (lit ''  Hello World  ''))])]])])"
    by (simp add: hello_response_def)
  have e: "strip (lit ''  Hello World  '') = lit ''Hello World''"
    by (simp add: strip_def lstrip_def rstrip_def isspace_def lit_def)
  have "results_of (signals_of (run example_worker (example_world hello_response)))
       = [lit ''Hello World'']"
    using run_200_result_is_trimmed_content [OF a b c]
    by (simp add: d e choices0_message_content_def)
  with a b c show ?thesis by simp
qed

lemma errors_of_run:
  "errors_of (signals_of (run self w)) =
     (case read_file w (image_path self) of
        Inl e \<Rightarrow> [lit ''Processing error: '' @ str_exn e]
      | Inr bytes \<Rightarrow>
         (case http_post w \<lparr>req_url = GROQ_API_URL,
                             req_json = data (decode_ascii (b64encode bytes)),
                             req_headers = headers, req_timeout = 120\<rparr> of
            Inl e \<Rightarrow> [lit ''Processing error: '' @ str_exn e]
          | Inr r \<Rightarrow>
             (if status_code r = 200 then
                (case resp_json r of
                   Inl e \<Rightarrow> [lit ''Processing error: '' @ str_exn e]
                 | Inr j \<Rightarrow>
                    (case extract_text j of
                       Inl e \<Rightarrow> [lit ''Processing error: '' @ str_exn e]
                     | Inr t \<Rightarrow> []))
              else [lit ''API error (Groq): '' @ resp_text r])))"
  by (simp add: run_def run_try_def Let_def split: sum.split)

text \<open>
  Claim C3. A run whose POST is answered with a status other than 200 emits one error,
  \<open>"API error (Groq): "\<close> followed by the response body, which therefore contains the
  body. A run in which a statement raises (the file cannot be read, the POST raises,
  the body does not parse, the path \<open>choices[0].message.content\<close> cannot be followed)
  emits one error, \<open>"Processing error: "\<close> followed by \<open>str(e)\<close>, which therefore
  contains the exception's message.
\<close>

theorem run_failure_messages:
  "(Post req \<in> set (run self w) \<and> http_post w req = Inr r \<and> status_code r \<noteq> 200 \<longrightarrow>
      errors_of (signals_of (run self w)) = [lit ''API error (Groq): '' @ resp_text r]
      \<and> sublist (resp_text r) (lit ''API error (Groq): '' @ resp_text r))
   \<and> (read_file w (image_path self) = Inl e \<longrightarrow>
      errors_of (signals_of (run self w)) = [lit ''Processing error: '' @ str_exn e])
   \<and> (Post req \<in> set (run self w) \<and> http_post w req = Inl e \<longrightarrow>
      errors_of (signals_of (run self w)) = [lit ''Processing error: '' @ str_exn e])
   \<and> (Post req \<in> set (run self w) \<and> http_post w req = Inr r \<and> status_code r = 200
        \<and> resp_json r = Inl e \<longrightarrow>
      errors_of (signals_of (run self w)) = [lit ''Processing error: '' @ str_exn e])
   \<and> (Post req \<in> set (run self w) \<and> http_post w req = Inr r \<and> status_code r = 200
        \<and> resp_json r = Inr j \<and> extract_text j = Inl e \<longrightarrow>
      errors_of (signals_of (run self w)) = [lit ''Processing error: '' @ str_exn e])
   \<and> sublist (str_exn e) (lit ''Processing error: '' @ str_exn e)"
proof -
  have 1: "errors_of (signals_of (run self w)) = [lit ''API error (Groq): '' @ resp_text r]"
    if p: "Post req \<in> set (run self w)" "http_post w req = Inr r" "status_code r \<noteq> 200"
  proof -
    obtain bytes where "read_file w (image_path self) = Inr bytes"
      "req = \<lparr>req_url = GROQ_API_URL, req_json = data (decode_ascii (b64encode bytes)),
                 req_headers = headers, req_timeout = 120\<rparr>"
      using Post_in_run[OF p(1)] by blast
    then show ?thesis using p(2,3) by (simp add: errors_of_run)
  qed
  have 2: "errors_of (signals_of (run self w)) = [lit ''Processing error: '' @ str_exn e]"
    if p: "read_file w (image_path self) = Inl e"
    using p by (simp add: errors_of_run)
  have 3: "errors_of (signals_of (run self w)) = [lit ''Processing error: '' @ str_exn e]"
    if p: "Post req \<in> set (run self w)" "http_post w req = Inl e"
  proof -
    obtain bytes where "read_file w (image_path self) = Inr bytes"
      "req = \<lparr>req_url = GROQ_API_URL, req_json = data (decode_ascii (b64encode bytes)),
                 req_headers = headers, req_timeout = 120\<rparr>"
      using Post_in_run[OF p(1)] by blast
    then show ?thesis using p(2) by (simp add: errors_of_run)
  qed
  have 4: "errors_of (signals_of (run self w)) = [lit ''Processing error: '' @ str_exn e]"
    if p: "Post req \<in> set (run self w)" "http_post w req = Inr r" "status_code r = 200"
      "resp_json r = Inl e"
  proof -
    obtain bytes where "read_file w (image_path self) = Inr bytes"
      "req = \<lparr>req_url = GROQ_API_URL, req_json = data (decode_ascii (b64encode bytes)),
                 req_headers = headers, req_timeout = 120\<rparr>"
      using Post_in_run[OF p(1)] by blast
    then show ?thesis using p(2,3,4) by (simp add: errors_of_run)
  qed
  have 5: "errors_of (signals_of (run self w)) = [lit ''Processing error: '' @ str_exn e]"
    if p: "Post req \<in> set (run self w)" "http_post w req = Inr r" "status_code r = 200"
      "resp_json r = Inr j" "extract_text j = Inl e"
  proof -
    obtain bytes where "read_file w (image_path self) = Inr bytes"
      "req = \<lparr>req_url = GROQ_API_URL, req_json = data (decode_ascii (b64encode bytes)),
                 req_headers = headers, req_timeout = 120\<rparr>"
      using Post_in_run[OF p(1)] by blast
    then show ?thesis using p(2,3,4,5) by (simp add: errors_of_run)
  qed
  have 6: "sublist (resp_text r) (lit ''API error (Groq): '' @ resp_text r)"
    unfolding sublist_def by (rule exI[of _ "lit _"], rule exI[of _ "[]"]) simp
  have 7: "sublist (str_exn e) (lit ''Processing error: '' @ str_exn e)"
    unfolding sublist_def by (rule exI[of _ "lit _"], rule exI[of _ "[]"]) simp
  show ?thesis using 1 2 3 4 5 6 7 by blast
qed

text \<open>
  The instance of the specification: the body \<open>"rate limited"\<close> with status 429, and
  an image file that cannot be opened.
\<close>

theorem run_failure_examples:
  "Post example_request \<in> set (run example_worker (example_world rate_limited_response))
   \<and> http_post (example_world rate_limited_response) example_request = Inr rate_limited_response
   \<and> status_code rate_limited_response \<noteq> 200
   \<and> errors_of (signals_of (run example_worker (example_world rate_limited_response)))
       = [lit ''API error (Groq): rate limited'']
   \<and> sublist (lit ''rate limited'') (lit ''API error (Groq): rate limited'')
   \<and> errors_of (signals_of (run example_worker unreadable_world))
       = [lit ''Processing error: [Errno 2] No such file or directory'']"
proof -
  have a: "Post example_request \<in> set (run example_worker (example_world rate_limited_response))"
    by (rule example_run_posts)
  have b: "http_post (example_world rate_limited_response) example_request = Inr rate_limited_response"
    by (simp add: example_world_def)
  have c: "status_code rate_limited_response \<noteq> 200"
    by (simp add: rate_limited_response_def)
  have d: "resp_text rate_limited_response = lit ''rate limited''"
    by (simp add: rate_limited_response_def)
  have e: "lit ''API error (Groq): '' @ lit ''rate limited'' = lit ''API error (Groq): rate limited''"
    by (simp add: lit_def)
  have f: "read_file unreadable_world (image_path example_worker)
      = Inl (Exn OSError (lit ''[Errno 2] No such file or directory''))"
    by (simp add: unreadable_world_def)
  have g: "lit ''Processing error: '' @ lit ''[Errno 2] No such file or directory''
      = lit ''Processing error: [Errno 2] No such file or directory''"
    by (simp add: lit_def)
  have "errors_of (signals_of (run example_worker (example_world rate_limited_response)))
       = [lit ''API error (Groq): rate limited'']
     \<and> sublist (lit ''rate limited'') (lit ''API error (Groq): rate limited'')"
    using run_failure_messages
      [of example_request example_worker "example_world rate_limited_response"
          rate_limited_response] a b c
    by (simp add: d e)
  moreover have "errors_of (signals_of (run example_worker unreadable_world))
       = [lit ''Processing error: [Errno 2] No such file or directory'']"
    using run_failure_messages
      [of _ example_worker unreadable_world _ "Exn OSError (lit ''[Errno 2] No such file or directory'')"] f
    by (simp add: g)
  ultimately show ?thesis using a b c by simp
qed

text \<open>
  Claim C8. \<open>stop\<close> sets \<open>_is_running\<close> to \<open>False\<close> and changes no other field, and
  \<open>run\<close> never reads that flag: the effects of a run (its signals and its POST) are
  the same whatever the flag holds, so the run goes on to the response or the timeout
  that the world gives it.
\<close>

theorem stop_changes_no_effect:
  "run (stop self) w = run self w
   \<and> run (self\<lparr>is_running := b\<rparr>) w = run self w
   \<and> image_path (stop self) = image_path self \<and> model (stop self) = model self
   \<and> url (stop self) = url self \<and> is_running (stop self) = False"
  by (simp add: stop_def run_def run_try_def Let_def split: sum.split)

text \<open>
  Claim C9. A run sends no POST when the image cannot be read, and otherwise exactly
  one, of this shape: to the fixed endpoint, a JSON body with one user message holding
  a text part with the fixed prompt and an \<open>image_url\<close> part whose URL is
  \<open>"data:image/jpeg;base64,"\<close> followed by the base64 text of the image's octets, the
  fixed model string, \<open>stream\<close> false, an \<open>Authorization\<close> header \<open>Bearer\<close> with the
  embedded key, and a timeout of 120 seconds.
\<close>

theorem run_post_shape:
  "posts_of (run self w) =
     (case read_file w (image_path self) of
        Inl e \<Rightarrow> []
      | Inr bytes \<Rightarrow>
         [\<lparr>req_url = lit ''https://api.groq.com/openai/v1/chat/completions'',
           req_json =
             JDict
              [(lit ''messages'',
                JList
                 [JDict
                   [(lit ''role'', JStr (lit ''user'')),
                    (lit ''content'',
                     JList
                      [JDict [(lit ''type'', JStr (lit ''text'')), (lit ''text'', JStr prompt)],
                       JDict
                        [(lit ''type'', JStr (lit ''image_url'')),
                         (lit ''image_url'',
                          JDict
                           [(lit ''url'',
                             JStr (lit ''data:image/jpeg;base64,''
                                   @ decode_ascii (b64encode bytes)))])]])]]),
               (lit ''model'', JStr (lit ''llama-3.2-11b-vision-preview'')),
               (lit ''stream'', JBool False)],
           req_headers =
             [(lit ''Content-Type'', lit ''application/json''),
              (lit ''Authorization'', lit ''Bearer '' @ DEMO_KEY)],
           req_timeout = 120\<rparr>])"
  by (simp add: run_def run_try_def Let_def data_def headers_def GROQ_API_URL_def
      split: sum.split)

text \<open>
  Claim C10. Two workers with the same image path send the same POSTs in the same
  world, whatever their model (and URL) arguments; the whole trace of the second is
  the trace of the first with the line \<open>"Sending to <model>"\<close> of the log rewritten.
\<close>

theorem run_independent_of_model:
  assumes "image_path a = image_path b"
  shows "posts_of (run a w) = posts_of (run b w)
   \<and> run b w =
       map (\<lambda>e. if e = Emit (Log (lit ''Sending to '' @ model a) False)
                then Emit (Log (lit ''Sending to '' @ model b) False) else e)
         (run a w)"
  using assms
  by (simp add: run_def run_try_def Let_def lit_def split: sum.split)

text \<open>Two workers that differ in their model send the same POST.\<close>

theorem run_independent_of_model_example:
  "image_path example_worker = image_path (example_worker\<lparr>model := lit ''llava''\<rparr>)
   \<and> model example_worker \<noteq> model (example_worker\<lparr>model := lit ''llava''\<rparr>)
   \<and> posts_of (run (example_worker\<lparr>model := lit ''llava''\<rparr>) (example_world hello_response))
       = posts_of (run example_worker (example_world hello_response))"
proof -
  have a: "image_path example_worker = image_path (example_worker\<lparr>model := lit ''llava''\<rparr>)"
    by simp
  have b: "model example_worker \<noteq> model (example_worker\<lparr>model := lit ''llava''\<rparr>)"
    by (simp add: example_worker_def OCRWorker_init_def lit_def)
  show ?thesis
    using run_independent_of_model [OF a, of "example_world hello_response"] a b by simp
qed

section \<open>Properties of the presentation shell\<close>

lemmas app_eval = initial_def OCRApp_init_def select_image_def load_image_def
      Let_def load_pixmap_def QPixmap_def log_def update_status_def run_ocr_def currentText_def
      addItem_def addItems_def warning_def keyPressEvent_def dropEvent_def last_segment_def

text \<open>
  The two guards of \<open>run_ocr\<close>. When it is called with \<open>image_path\<close> empty or
  with the dropdown's current text empty, it shows one warning and does nothing else:
  no POST is sent, no thread is started, the button keeps its state, the result text
  is untouched, and no worker is made. The state after the call is the state before it
  with the warning added to the dialogs shown.
\<close>

theorem run_ocr_refuses:
  assumes "app_image_path (app s) = [] \<or> currentText (model_dropdown (app s)) = []"
  shows "(\<exists>msg. run_ocr w s =
            s\<lparr>app := (app s)\<lparr>dialogs := dialogs (app s)
               @ [\<lparr>dlg_icon = Warning, dlg_title = lit ''Warning'', dlg_text = msg\<rparr>]\<rparr>\<rparr>)
         \<and> network (run_ocr w s) = network s
         \<and> threads (run_ocr w s) = threads s
         \<and> process_btn_enabled (app (run_ocr w s)) = process_btn_enabled (app s)
         \<and> result_text (app (run_ocr w s)) = result_text (app s)
         \<and> worker (app (run_ocr w s)) = worker (app s)
         \<and> worker_thread (app (run_ocr w s)) = worker_thread (app s)
         \<and> length (dialogs (app (run_ocr w s))) = Suc (length (dialogs (app s)))"
  using assms by (auto simp: run_ocr_def warning_def Let_def)

text \<open>
  Both refusals: in the initial state no image is selected; after an image was chosen
  and the endpoint listed no model, the dropdown has no current text.
\<close>

lemma no_models_state_facts:
  "app_image_path (app no_models_state) = lit ''/tmp/a.png''"
  "currentText (model_dropdown (app no_models_state)) = []"
  "dialogs (app no_models_state) = []"
  by (simp_all add: no_models_state_def app_eval check_ollama_connection_def check_try_def
      tags_response_def fill_dropdown_def clear_def join_def str_of_nat_def)

theorem run_ocr_refuses_examples:
  "app_image_path (app (initial 400 300)) = []
   \<and> dialogs (app (run_ocr (example_world hello_response) (initial 400 300)))
       = [\<lparr>dlg_icon = Warning, dlg_title = lit ''Warning'',
           dlg_text = lit ''Please select an image first''\<rparr>]
   \<and> threads (run_ocr (example_world hello_response) (initial 400 300)) = []
   \<and> network (run_ocr (example_world hello_response) (initial 400 300)) = []
   \<and> process_btn_enabled (app (run_ocr (example_world hello_response) (initial 400 300)))
   \<and> app_image_path (app no_models_state) \<noteq> []
   \<and> currentText (model_dropdown (app no_models_state)) = []
   \<and> threads (run_ocr (example_world hello_response) no_models_state) = threads no_models_state
   \<and> network (run_ocr (example_world hello_response) no_models_state) = network no_models_state
   \<and> dialogs (app (run_ocr (example_world hello_response) no_models_state))
       = [\<lparr>dlg_icon = Warning, dlg_title = lit ''Warning'',
           dlg_text = lit ''Please select a model first''\<rparr>]"
proof -
  have a: "app_image_path (app (initial 400 300)) = []"
    by (simp add: initial_def OCRApp_init_def)
  have b: "currentText (model_dropdown (app no_models_state)) = []"
    by (rule no_models_state_facts)
  have c: "app_image_path (app no_models_state) \<noteq> []"
    by (simp add: no_models_state_facts lit_def)
  have d: "dialogs (app (run_ocr (example_world hello_response) (initial 400 300)))
       = [\<lparr>dlg_icon = Warning, dlg_title = lit ''Warning'',
           dlg_text = lit ''Please select an image first''\<rparr>]"
    by (simp add: app_eval)
  have e: "dialogs (app (run_ocr (example_world hello_response) no_models_state))
       = [\<lparr>dlg_icon = Warning, dlg_title = lit ''Warning'',
           dlg_text = lit ''Please select a model first''\<rparr>]"
    using b c by (simp add: run_ocr_def warning_def no_models_state_facts(3))
  have f: "threads (initial 400 300) = []" "network (initial 400 300) = []"
    "process_btn_enabled (app (initial 400 300))"
    by (simp_all add: initial_def OCRApp_init_def)
  show ?thesis
    using run_ocr_refuses [of "initial 400 300" "example_world hello_response"]
      run_ocr_refuses [of no_models_state "example_world hello_response"]
      a b c d e f by simp
qed

text \<open>
  Claim C4, on the state in which no model was ever listed: the catalog is empty and
  the dropdown holds only its placeholder \<open>"Loading models..."\<close>, the state that
  the first, overwritten definition of \<open>run_ocr\<close> refuses with the status
  \<open>"No model selected"\<close>. The definition in force tests the current text for
  emptiness only: it shows no warning, disables the button, clears the result text and
  starts a worker whose model is the placeholder, and that worker sends the POST.
\<close>

theorem run_ocr_placeholder_model:
  "available_models (app placeholder_state) = []
   \<and> items (model_dropdown (app placeholder_state)) = [lit ''Loading models...'']
   \<and> currentText (model_dropdown (app placeholder_state)) = lit ''Loading models...''
   \<and> process_btn_enabled (app placeholder_state)
   \<and> dialogs (app placeholder_state) = []
   \<and> dialogs (app (run_ocr (example_world hello_response) placeholder_state)) = []
   \<and> \<not> process_btn_enabled (app (run_ocr (example_world hello_response) placeholder_state))
   \<and> threads (run_ocr (example_world hello_response) placeholder_state)
       = [run (OCRWorker_init (lit ''/tmp/a.png'') (lit ''Loading models...'')
                 (lit ''http://localhost:11434''))
            (example_world hello_response)]
   \<and> posts_of (run (OCRWorker_init (lit ''/tmp/a.png'') (lit ''Loading models...'')
                       (lit ''http://localhost:11434''))
                  (example_world hello_response))
       = [example_request]
   \<and> network (exec [Click (example_world hello_response),
                      Advance 0, Advance 0, Advance 0, Advance 0] placeholder_state)
       = [example_request]"
  by (simp add: placeholder_state_def app_eval check_ollama_connection_def check_try_def
      example_world_def hello_response_def run_def run_try_def extract_text_def
      advance_def example_request_def decode_ascii_def b64_char_def b64_alphabet_def
      OCRWorker_init_def lit_def)

lemma find_index_bounds: "- 1 \<le> find_index t xs \<and> find_index t xs < int (length xs)"
  by (induction xs) (auto simp: Let_def)

lemma find_index_mem: "(0 \<le> find_index t xs) = (t \<in> set xs)"
  by (induction xs) (auto simp: Let_def)

lemma find_index_nth: "t \<in> set xs \<Longrightarrow> xs ! nat (find_index t xs) = t"
proof (induction xs)
  case Nil
  then show ?case by simp
next
  case (Cons x xs)
  show ?case
  proof (cases "x = t")
    case True
    then show ?thesis by simp
  next
    case False
    with Cons.prems have m: "t \<in> set xs" by simp
    then have nn: "0 \<le> find_index t xs" by (simp add: find_index_mem)
    then have "nat (find_index t xs + 1) = Suc (nat (find_index t xs))" by simp
    with False m nn Cons.IH show ?thesis by (simp add: Let_def)
  qed
qed

lemma find_index_absent: "t \<notin> set xs \<Longrightarrow> find_index t xs = - 1"
  by (induction xs) (auto simp: Let_def)

lemma names_of_dicts:
  "names_of (map (\<lambda>n. JDict [(lit ''name'', JStr n)]) names) = Inr (map JStr names)"
  by (induction names) simp_all

lemma join_from_strs: "\<exists>r. join_from i sep (map JStr names) = Inr r"
proof (induction names arbitrary: i)
  case Nil
  then show ?case by simp
next
  case (Cons n names)
  obtain r where "join_from (Suc i) sep (map JStr names) = Inr r"
    using Cons.IH by blast
  then show ?case by simp
qed

lemma strs_of_strs: "strs_of (map JStr names) = names"
  by (induction names) simp_all

text \<open>What the code does with the catalog.\<close>

lemma check_ollama_connection_catalog:
  assumes "http_get (ollama_url a @ lit ''/api/tags'') = Inr r" and "status_code r = 200"
    and "resp_json r =
           Inr (JDict [(lit ''models'', JList (map (\<lambda>n. JDict [(lit ''name'', JStr n)]) names))])"
  shows "available_models (check_ollama_connection http_get a) = map JStr names
         \<and> items (model_dropdown (check_ollama_connection http_get a)) = names
         \<and> currentIndex (model_dropdown (check_ollama_connection http_get a)) =
             (if names = [] then - 1
              else if list_ex (sublist (preferred_model a)) names
                   then find_index (preferred_model a) names
              else 0)"
proof -
  obtain j where j: "join_from 0 (lit '', '') (map JStr names) = Inr j"
    using join_from_strs by blast
  have b: "- 1 \<le> find_index (preferred_model a) names"
    "find_index (preferred_model a) names < int (length names)"
    using find_index_bounds by auto
  show ?thesis
    using assms j b
    by (auto simp: check_ollama_connection_def check_try_def Let_def names_of_dicts join_def
        fill_dropdown_def strs_of_strs clear_def addItems_def findText_def setCurrentIndex_def
        log_def update_status_def)
qed

text \<open>
  Claim C5, on the catalog \<open>["llava", "gemma:2b-instruct"]\<close> with the preferred
  model \<open>"gemma:2b"\<close>: the catalog is put into the dropdown and an entry contains the
  preferred model, but \<open>findText\<close> looks for an item equal to it, finds none and
  answers \<open>-1\<close>, so \<open>setCurrentIndex\<close> leaves no item current: neither the matching
  entry nor the default first entry is selected.
\<close>

theorem check_ollama_connection_substring_match:
  "items (model_dropdown (check_ollama_connection
       (\<lambda>u. Inr (tags_response [lit ''llava'', lit ''gemma:2b-instruct''])) (OCRApp_init 400 300)))
     = [lit ''llava'', lit ''gemma:2b-instruct'']
   \<and> sublist (preferred_model (OCRApp_init 400 300)) (lit ''gemma:2b-instruct'')
   \<and> currentIndex (model_dropdown (check_ollama_connection
       (\<lambda>u. Inr (tags_response [lit ''llava'', lit ''gemma:2b-instruct''])) (OCRApp_init 400 300)))
     = - 1
   \<and> currentText (model_dropdown (check_ollama_connection
       (\<lambda>u. Inr (tags_response [lit ''llava'', lit ''gemma:2b-instruct''])) (OCRApp_init 400 300)))
     = []"
proof -
  have s: "status_code (tags_response [lit ''llava'', lit ''gemma:2b-instruct'']) = 200"
    by (simp add: tags_response_def)
  have t: "resp_json (tags_response [lit ''llava'', lit ''gemma:2b-instruct'']) =
      Inr (JDict [(lit ''models'',
        JList (map (\<lambda>n. JDict [(lit ''name'', JStr n)]) [lit ''llava'', lit ''gemma:2b-instruct'']))])"
    by (simp add: tags_response_def)
  have p: "preferred_model (OCRApp_init 400 300) = lit ''gemma:2b''"
    by (simp add: OCRApp_init_def)
  have sub: "sublist (lit ''gemma:2b'') (lit ''gemma:2b-instruct'')"
    by (simp add: lit_def sublist_code)
  have nsub: "\<not> sublist (lit ''gemma:2b'') (lit ''llava'')"
    by (simp add: lit_def sublist_code)
  have ne: "lit ''llava'' \<noteq> lit ''gemma:2b''" "lit ''gemma:2b-instruct'' \<noteq> lit ''gemma:2b''"
    by (simp_all add: lit_def)
  have "items (model_dropdown (check_ollama_connection
       (\<lambda>u. Inr (tags_response [lit ''llava'', lit ''gemma:2b-instruct''])) (OCRApp_init 400 300)))
     = [lit ''llava'', lit ''gemma:2b-instruct'']
   \<and> currentIndex (model_dropdown (check_ollama_connection
       (\<lambda>u. Inr (tags_response [lit ''llava'', lit ''gemma:2b-instruct''])) (OCRApp_init 400 300)))
     = - 1"
    using check_ollama_connection_catalog
      [of "\<lambda>u. Inr (tags_response [lit ''llava'', lit ''gemma:2b-instruct''])"
          "OCRApp_init 400 300" "tags_response [lit ''llava'', lit ''gemma:2b-instruct'']"
          "[lit ''llava'', lit ''gemma:2b-instruct'']"] s t
    by (simp add: p sub nsub ne)
  then show ?thesis by (simp add: p sub currentText_def)
qed

lemma is_image_name_nonempty: "is_image_name p \<Longrightarrow> p \<noteq> []"
  by (auto simp: is_image_name_def image_suffixes_def endswith_def lower_def lit_def)

text \<open>A file supplied by the dialog, by a drop or by a pasted URL is loaded the same way.\<close>

lemma file_sources_converge:
  assumes "is_image_name p"
  shows "select_image r p a = load_image r p a
         \<and> dropEvent r [p] a = load_image r p a
         \<and> keyPressEvent r True (url_clipboard [p]) a = load_image r p a"
  using assms is_image_name_nonempty[OF assms]
  by (simp add: select_image_def dropEvent_def keyPressEvent_def url_clipboard_def)

text \<open>
  Claim C6, on a bitmap pasted in the initial state: the file dialog sets
  \<open>image_path\<close>; the paste of a bitmap goes to \<open>load_pixmap\<close> alone, so the
  thumbnail is shown while \<open>image_path\<close> stays empty and the file name stays
  \<open>"No image loaded"\<close>; a click on the button then meets the warning for a missing
  image and starts no job.
\<close>

theorem paste_bitmap_sets_no_path:
  "app_image_path (select_image (\<lambda>p. True) (lit ''/tmp/a.png'') (OCRApp_init 400 300))
     = lit ''/tmp/a.png''
   \<and> app_image_path (keyPressEvent (\<lambda>p. True) True bitmap_clipboard (OCRApp_init 400 300)) = []
   \<and> image_label_pixmap (keyPressEvent (\<lambda>p. True) True bitmap_clipboard (OCRApp_init 400 300))
       = Some (ScaledPixmap (ClipboardPixmap 0) 380 280)
   \<and> image_info (keyPressEvent (\<lambda>p. True) True bitmap_clipboard (OCRApp_init 400 300))
       = lit ''No image loaded''
   \<and> dialogs (app (exec [Key (\<lambda>p. True) True bitmap_clipboard, Click (example_world hello_response)]
                     (initial 400 300)))
       = [\<lparr>dlg_icon = Warning, dlg_title = lit ''Warning'',
           dlg_text = lit ''Please select an image first''\<rparr>]
   \<and> threads (exec [Key (\<lambda>p. True) True bitmap_clipboard, Click (example_world hello_response)]
                 (initial 400 300)) = []"
  by (simp add: app_eval bitmap_clipboard_def)

subsection \<open>One job at a time\<close>

lemma run_well_ended: "well_ended (run job w)"
  by (simp add: well_ended_def run_def run_try_def Let_def butlast_append split: sum.split)

lemma update_status_btn [simp]:
  "process_btn_enabled (update_status m e a) = process_btn_enabled a"
  by (simp add: update_status_def)

lemma log_btn [simp]: "process_btn_enabled (log m e a) = process_btn_enabled a"
  by (simp add: log_def)

lemma load_pixmap_btn [simp]: "process_btn_enabled (load_pixmap px a) = process_btn_enabled a"
  by (simp add: load_pixmap_def)

lemma load_image_btn [simp]: "process_btn_enabled (load_image r p a) = process_btn_enabled a"
  by (simp add: load_image_def Let_def)

lemma load_first_image_btn [simp]:
  "process_btn_enabled (load_first_image r urls a) = process_btn_enabled a"
  by (induction urls) simp_all

lemma select_image_btn [simp]: "process_btn_enabled (select_image r p a) = process_btn_enabled a"
  by (simp add: select_image_def)

lemma dropEvent_btn [simp]: "process_btn_enabled (dropEvent r urls a) = process_btn_enabled a"
  by (simp add: dropEvent_def)

lemma keyPressEvent_btn [simp]:
  "process_btn_enabled (keyPressEvent r k c a) = process_btn_enabled a"
  by (simp add: keyPressEvent_def)

lemma fill_dropdown_btn [simp]: "process_btn_enabled (fill_dropdown a) = process_btn_enabled a"
  by (simp add: fill_dropdown_def Let_def)

lemma check_try_btn: "process_btn_enabled (fst (check_try g a)) = process_btn_enabled a"
  by (simp add: check_try_def Let_def split: sum.split)

lemma check_ollama_connection_btn [simp]:
  "process_btn_enabled (check_ollama_connection g a) = process_btn_enabled a"
proof -
  let ?s0 = "log (lit ''Attempting to connect to Ollama...'') False
                 (update_status (lit ''Connecting to Ollama...'') False a)"
  have "process_btn_enabled (fst (check_try g ?s0)) = process_btn_enabled a"
    by (simp add: check_try_btn)
  then show ?thesis
    by (cases "check_try g ?s0") (auto simp: check_ollama_connection_def Let_def split: option.split)
qed

lemma deliver_btn:
  "process_btn_enabled (deliver sg a) = (if sg = Finished then True else process_btn_enabled a)"
  by (cases sg) (simp_all add: handle_result_def handle_error_def log_message_def
      cleanup_thread_def Let_def)

lemma well_ended_Cons:
  "well_ended (e # rest) \<Longrightarrow>
     (if rest = [] then e = Emit Finished else e \<noteq> Emit Finished \<and> well_ended rest)"
  by (auto simp: well_ended_def split: if_splits)

lemma single_flight_initial: "single_flight (initial wd ht)"
  by (simp add: single_flight_def initial_def OCRApp_init_def)

lemma single_flight_run_ocr:
  assumes "single_flight s" and "process_btn_enabled (app s)"
  shows "single_flight (run_ocr w s)"
  using assms
  by (auto simp: single_flight_def run_ocr_def warning_def Let_def run_well_ended)

lemma single_flight_advance:
  assumes "single_flight s"
  shows "single_flight (advance i s)"
proof (cases "process_btn_enabled (app s)")
  case True
  with assms have "threads s = []" by (simp add: single_flight_def)
  then show ?thesis using assms by (simp add: advance_def)
next
  case False
  with assms obtain tr where tr: "threads s = [tr]" "well_ended tr"
    by (auto simp: single_flight_def split: list.splits)
  then obtain e rest where er: "tr = e # rest" by (cases tr) (auto simp: well_ended_def)
  show ?thesis
  proof (cases "i = 0")
    case i0: True
    show ?thesis
    proof (cases "rest = []")
      case True
      with tr er have "e = Emit Finished" using well_ended_Cons by fastforce
      with True tr er i0 show ?thesis
        by (simp add: advance_def single_flight_def cleanup_thread_def Let_def)
    next
      case rne: False
      with tr er have e: "e \<noteq> Emit Finished" "well_ended rest"
        using well_ended_Cons[of e rest] by auto
      show ?thesis
      proof (cases e)
        case (Emit sg)
        with e have "sg \<noteq> Finished" by simp
        with Emit rne tr er i0 e False show ?thesis
          by (simp add: advance_def single_flight_def Let_def deliver_btn)
      next
        case (Post r)
        with rne tr er i0 e False show ?thesis
          by (simp add: advance_def single_flight_def Let_def)
      qed
    qed
  next
    case False
    with tr have "advance i s = s" by (simp add: advance_def)
    with assms show ?thesis by simp
  qed
qed

lemma single_flight_step:
  assumes "single_flight s"
  shows "single_flight (step e s)"
proof (cases e)
  case (Click w)
  with assms show ?thesis by (simp add: single_flight_run_ocr)
next
  case (Advance i)
  with assms show ?thesis by (simp add: single_flight_advance)
next
  case (Choose r p)
  with assms show ?thesis by (simp add: single_flight_def)
next
  case (Drop r urls)
  with assms show ?thesis by (simp add: single_flight_def)
next
  case (Key r k c)
  with assms show ?thesis by (simp add: single_flight_def)
next
  case (Connect g)
  with assms show ?thesis by (simp add: single_flight_def)
qed

lemma single_flight_exec: "single_flight s \<Longrightarrow> single_flight (exec es s)"
  by (induction es arbitrary: s) (simp_all add: single_flight_step)

lemma single_flight_reachable: "single_flight (exec es (initial wd ht))"
  by (rule single_flight_exec) (rule single_flight_initial)

lemma run_ocr_starts_thread:
  "app_image_path (app s) \<noteq> [] \<Longrightarrow> currentText (model_dropdown (app s)) \<noteq> [] \<Longrightarrow>
     threads (run_ocr w s) =
       threads s @ [run (OCRWorker_init (app_image_path (app s))
                          (currentText (model_dropdown (app s))) (ollama_url (app s))) w]"
  by (simp add: run_ocr_def Let_def)

text \<open>
  Claim C7. In every state the program reaches from its start, at most one thread is
  left and the button is enabled exactly when none is. A click in a state with a
  thread left changes nothing: no thread is started, no POST is sent. A click that
  passes the two guards disables the button and starts one thread. The button goes
  from disabled to enabled only by the delivery of \<open>finished\<close>. (\<open>run_ocr\<close> itself
  does not look at the button: what keeps the click out is that a disabled button
  emits no \<open>clicked\<close>, lemma \<open>run_ocr_starts_thread\<close>.)
\<close>

theorem single_flight_holds:
  "length (threads (exec es (initial wd ht))) \<le> 1
   \<and> (process_btn_enabled (app (exec es (initial wd ht))) = (threads (exec es (initial wd ht)) = []))
   \<and> (threads (exec es (initial wd ht)) \<noteq> [] \<longrightarrow>
        step (Click w) (exec es (initial wd ht)) = exec es (initial wd ht))
   \<and> (process_btn_enabled (app s) \<and> app_image_path (app s) \<noteq> []
        \<and> currentText (model_dropdown (app s)) \<noteq> [] \<longrightarrow>
        \<not> process_btn_enabled (app (step (Click w) s))
        \<and> threads (step (Click w) s) =
            threads s @ [run (OCRWorker_init (app_image_path (app s))
                                (currentText (model_dropdown (app s))) (ollama_url (app s))) w])
   \<and> (\<not> process_btn_enabled (app s) \<and> process_btn_enabled (app (step e s)) \<longrightarrow>
        (\<exists>i rest. e = Advance i \<and> i < length (threads s) \<and> threads s ! i = Emit Finished # rest))"
proof -
  let ?s = "exec es (initial wd ht)"
  have inv: "single_flight ?s" by (rule single_flight_reachable)
  have 1: "length (threads ?s) \<le> 1"
    using inv by (auto simp: single_flight_def split: if_splits list.splits)
  have 2: "process_btn_enabled (app ?s) = (threads ?s = [])"
    using inv by (auto simp: single_flight_def split: if_splits list.splits)
  have 3: "threads ?s \<noteq> [] \<longrightarrow> step (Click w) ?s = ?s"
    using 2 by simp
  have 4: "process_btn_enabled (app s) \<and> app_image_path (app s) \<noteq> []
        \<and> currentText (model_dropdown (app s)) \<noteq> [] \<longrightarrow>
        \<not> process_btn_enabled (app (step (Click w) s))
        \<and> threads (step (Click w) s) =
            threads s @ [run (OCRWorker_init (app_image_path (app s))
                                (currentText (model_dropdown (app s))) (ollama_url (app s))) w]"
    by (simp add: run_ocr_def Let_def)
  have 5: "\<exists>i rest. e = Advance i \<and> i < length (threads s) \<and> threads s ! i = Emit Finished # rest"
    if p: "\<not> process_btn_enabled (app s)" "process_btn_enabled (app (step e s))"
  proof (cases e)
    case (Advance i)
    show ?thesis
    proof (cases "i < length (threads s)")
      case True
      show ?thesis
      proof (cases "threads s ! i")
        case Nil
        with True Advance p show ?thesis by (simp add: advance_def)
      next
        case (Cons x rest)
        show ?thesis
        proof (cases x)
          case (Emit sg)
          with Cons True Advance p have "sg = Finished"
            by (auto simp: advance_def Let_def deliver_btn split: if_splits)
          with Emit Cons True Advance show ?thesis by simp
        next
          case (Post r)
          with Cons True Advance p show ?thesis by (simp add: advance_def Let_def)
        qed
      qed
    next
      case False
      with Advance p show ?thesis by (simp add: advance_def)
    qed
  qed (use p in simp_all)
  show ?thesis using 1 2 3 4 5 by blast
qed

lemma example_events_state:
  "threads (exec example_events (initial 400 300)) \<noteq> []"
  by (simp add: example_events_def initial_def OCRApp_init_def select_image_def load_image_def
      Let_def load_pixmap_def QPixmap_def log_def update_status_def run_ocr_def currentText_def
      addItem_def addItems_def lit_def)

text \<open>
  The session \<open>example_events\<close>: after the click a thread is left and the button is
  disabled; a second click changes nothing.
\<close>

theorem single_flight_example:
  "threads (exec example_events (initial 400 300)) \<noteq> []
   \<and> \<not> process_btn_enabled (app (exec example_events (initial 400 300)))
   \<and> step (Click (example_world hello_response)) (exec example_events (initial 400 300))
       = exec example_events (initial 400 300)
   \<and> length (threads (exec (example_events @ [Click (example_world hello_response)]) (initial 400 300))) \<le> 1"
proof -
  have a: "threads (exec example_events (initial 400 300)) \<noteq> []"
    by (rule example_events_state)
  have "step (Click (example_world hello_response)) (exec example_events (initial 400 300))
       = exec example_events (initial 400 300)"
    using single_flight_holds [of example_events 400 300 "example_world hello_response"] a
    by blast
  moreover have "length (threads (exec (example_events @ [Click (example_world hello_response)]) (initial 400 300))) \<le> 1"
    using single_flight_holds
      [of "example_events @ [Click (example_world hello_response)]" 400 300] by blast
  moreover have "\<not> process_btn_enabled (app (exec example_events (initial 400 300)))"
    using single_flight_holds [of example_events 400 300] a by blast
  ultimately show ?thesis using a by simp
qed

text \<open>
  A whole job in the example world: after the nine effects of its run, no thread is
  left, the button is enabled again, one POST was sent and the window shows the result.
\<close>

lemma lifecycle_example:
  "threads (exec (example_events @ [Advance 0, Advance 0, Advance 0, Advance 0, Advance 0, Advance 0, Advance 0, Advance 0, Advance 0]) (initial 400 300)) = []
   \<and> process_btn_enabled (app (exec (example_events @ [Advance 0, Advance 0, Advance 0, Advance 0, Advance 0, Advance 0, Advance 0, Advance 0, Advance 0]) (initial 400 300)))
   \<and> network (exec (example_events @ [Advance 0, Advance 0, Advance 0, Advance 0, Advance 0, Advance 0, Advance 0, Advance 0, Advance 0]) (initial 400 300)) = [example_request]
   \<and> result_text (app (exec (example_events @ [Advance 0, Advance 0, Advance 0, Advance 0, Advance 0, Advance 0, Advance 0, Advance 0, Advance 0]) (initial 400 300))) = lit ''Hello World''"
  by (simp add: example_events_def initial_def OCRApp_init_def select_image_def load_image_def Let_def load_pixmap_def QPixmap_def log_def update_status_def run_ocr_def currentText_def addItem_def addItems_def warning_def last_segment_def example_world_def hello_response_def
      run_def run_try_def extract_text_def strip_def lstrip_def rstrip_def isspace_def
      advance_def handle_result_def handle_error_def log_message_def cleanup_thread_def
      example_request_def decode_ascii_def b64_char_def b64_alphabet_def OCRWorker_init_def
      lit_def)

end
